theory Spec2Isabelle
  imports Complex_Main "HOL-Library.Char_ord" "HOL-Library.List_Lexorder"
begin

section \<open>Python values used by crapremoval.py\<close>

text \<open>
  Exceptions of the Python run time that the program can meet.  Only
  \<open>FileNotFoundError\<close> and \<open>CalledProcessError\<close> are caught by
  \<open>_add_stat_properties\<close>; \<open>JSONDecodeError\<close> is caught by \<open>scan\<close>.
\<close>

datatype py_error =
    FileNotFoundError
  | CalledProcessError
  | PermissionError
  | ValueError
  | IndexError
  | TypeError

text \<open>
  Python numbers (\<open>int\<close> sizes, \<open>float\<close> and \<open>int\<close> time stamps) are compared
  with each other by value; they are embedded as rationals, a float standing for the
  number it denotes.
\<close>

type_synonym pynum = rat

subsection \<open>Strings\<close>

definition is_digit :: "char \<Rightarrow> bool" where
  "is_digit c = (48 \<le> (of_char c :: nat) \<and> (of_char c :: nat) \<le> 57)"

definition digit_value :: "char \<Rightarrow> nat" where
  "digit_value c = (of_char c :: nat) - 48"

definition digit_char :: "nat \<Rightarrow> char" where
  "digit_char d = char_of (48 + d)"

text \<open>White space of \<open>bytes.split()\<close>: space, tab, line feed, vertical tab, form feed, return.\<close>

definition is_ascii_space :: "char \<Rightarrow> bool" where
  "is_ascii_space c = ((of_char c :: nat) = 32 \<or> (9 \<le> (of_char c :: nat) \<and> (of_char c :: nat) \<le> 13))"

text \<open>White space stripped by \<open>int(str)\<close>: the above and the separators 28 to 31.\<close>

definition is_py_space :: "char \<Rightarrow> bool" where
  "is_py_space c = (is_ascii_space c \<or> (28 \<le> (of_char c :: nat) \<and> (of_char c :: nat) \<le> 31))"

definition strip :: "string \<Rightarrow> string" where
  "strip s = rev (dropWhile is_py_space (rev (dropWhile is_py_space s)))"

text \<open>
  The digits of a decimal literal: at least one digit, single underscores allowed
  between digits only.  The flag says whether the previous character was a digit.
\<close>

fun parse_digits :: "string \<Rightarrow> nat \<Rightarrow> bool \<Rightarrow> nat option" where
  "parse_digits [] acc prev_digit = (if prev_digit then Some acc else None)"
| "parse_digits (c # cs) acc prev_digit =
     (if is_digit c then parse_digits cs (10 * acc + digit_value c) True
      else if c = CHR ''_'' \<and> prev_digit then parse_digits cs acc False
      else None)"

text \<open>\<open>int(s)\<close> on a string: ValueError unless \<open>s\<close> is an optionally signed decimal literal.\<close>

definition py_int :: "string \<Rightarrow> py_error + int" where
  "py_int s =
     (case strip s of
        [] \<Rightarrow> Inl ValueError
      | c # cs \<Rightarrow>
          if c = CHR ''-'' then
            (case parse_digits cs 0 False of None \<Rightarrow> Inl ValueError | Some n \<Rightarrow> Inr (- int n))
          else if c = CHR ''+'' then
            (case parse_digits cs 0 False of None \<Rightarrow> Inl ValueError | Some n \<Rightarrow> Inr (int n))
          else
            (case parse_digits (c # cs) 0 False of None \<Rightarrow> Inl ValueError | Some n \<Rightarrow> Inr (int n)))"

text \<open>\<open>str.isdigit()\<close> on ASCII text: not empty and digits only.\<close>

definition isdigit :: "string \<Rightarrow> bool" where
  "isdigit s = (s \<noteq> [] \<and> list_all is_digit s)"

text \<open>\<open>str(n)\<close> for an integer.\<close>

function str_nat :: "nat \<Rightarrow> string" where
  "str_nat n = (if n < 10 then [digit_char n] else str_nat (n div 10) @ [digit_char (n mod 10)])"
  by pat_completeness auto
termination
  by (relation "measure id") auto

declare str_nat.simps [simp del]

definition py_str :: "int \<Rightarrow> string" where
  "py_str i = (if i < 0 then CHR ''-'' # str_nat (nat (- i)) else str_nat (nat i))"

text \<open>\<open>s.split(sep)\<close> with a one-character separator: never the empty list.\<close>

fun split_on :: "char \<Rightarrow> string \<Rightarrow> string list" where
  "split_on sep [] = [[]]"
| "split_on sep (c # cs) =
     (if c = sep then [] # split_on sep cs
      else (case split_on sep cs of [] \<Rightarrow> [[c]] | w # ws \<Rightarrow> (c # w) # ws))"

text \<open>\<open>b.split()\<close>: the maximal runs of characters that are not white space.\<close>

fun split_ws :: "string \<Rightarrow> string \<Rightarrow> string list" where
  "split_ws [] cur = (if cur = [] then [] else [cur])"
| "split_ws (c # cs) cur =
     (if is_ascii_space c then (if cur = [] then split_ws cs [] else cur # split_ws cs [])
      else split_ws cs (cur @ [c]))"

text \<open>\<open>xs[i]\<close> for an index that is not negative.\<close>

definition py_index :: "'a list \<Rightarrow> nat \<Rightarrow> py_error + 'a" where
  "py_index xs i = (if i < length xs then Inr (xs ! i) else Inl IndexError)"

text \<open>\<open>sub in s\<close> for two strings.\<close>

fun is_substring :: "string \<Rightarrow> string \<Rightarrow> bool" where
  "is_substring sub [] = (sub = [])"
| "is_substring sub (c # cs) = (take (length sub) (c # cs) = sub \<or> is_substring sub cs)"

text \<open>
  \<open>list.sort(key=..., reverse=...)\<close>: a stable sort; with \<open>reverse\<close> the order is
  descending and elements with equal keys still keep their original order.
\<close>

definition py_sort :: "('a \<Rightarrow> 'k::linorder) \<Rightarrow> bool \<Rightarrow> 'a list \<Rightarrow> 'a list" where
  "py_sort key reverse xs = (if reverse then rev (sort_key key (rev xs)) else sort_key key xs)"

text \<open>
  A Python \<open>dict\<close> is kept as an association list with each key once, in the order
  of first insertion.  \<open>dict_set d k v\<close> is \<open>d[k] = v\<close>, \<open>py_dict pairs\<close> is
  \<open>dict(pairs)\<close> (a later pair overwrites the value of an earlier one with the same
  key, the key stays in place), \<open>dict_get d k\<close> is \<open>d.get(k)\<close> and \<open>dict_keys pairs\<close>
  is \<open>dict(pairs).keys()\<close>.
\<close>

fun dict_set :: "('k \<times> 'v) list \<Rightarrow> 'k \<Rightarrow> 'v \<Rightarrow> ('k \<times> 'v) list" where
  "dict_set [] k v = [(k, v)]"
| "dict_set ((k', v') # d) k v = (if k' = k then (k, v) # d else (k', v') # dict_set d k v)"

definition py_dict :: "('k \<times> 'v) list \<Rightarrow> ('k \<times> 'v) list" where
  "py_dict pairs = foldl (\<lambda>d (k, v). dict_set d k v) [] pairs"

definition dict_get :: "('k \<times> 'v) list \<Rightarrow> 'k \<Rightarrow> 'v option" where
  "dict_get d k = map_of d k"

definition dict_keys :: "('k \<times> 'v) list \<Rightarrow> 'k list" where
  "dict_keys pairs = map fst (py_dict pairs)"

section \<open>The file system as the program observes it\<close>

record stat_result =
  st_size :: int
  st_mtime :: pynum

text \<open>
  One observation of the file system: \<open>Path.is_file\<close>, \<open>Path.stat\<close>, the decoded
  output of \<open>du -shb p\<close> and of \<open>find p -type f -printf '%T@+ %p\n'\<close> (or the
  exception \<open>check_output\<close> raises), and the children \<open>Path.glob('*')\<close> lists.
\<close>

record filesystem =
  is_file :: "string \<Rightarrow> bool"
  stat :: "string \<Rightarrow> py_error + stat_result"
  du :: "string \<Rightarrow> py_error + string"
  find_files :: "string \<Rightarrow> py_error + string"
  glob :: "string \<Rightarrow> string list"

section \<open>\<open>_add_stat_properties\<close>\<close>

text \<open>
  The body of the \<open>try\<close> for one path: \<open>Inr (Some v)\<close> appends \<open>(str(filepath), v)\<close>,
  \<open>Inr None\<close> appends nothing (a directory without files in age mode), \<open>Inl e\<close>
  raises \<open>e\<close>.
\<close>

definition stat_value :: "filesystem \<Rightarrow> string \<Rightarrow> string \<Rightarrow> py_error + pynum option" where
  "stat_value fs stattype filepath =
     (if is_file fs filepath then
        (case stat fs filepath of
           Inl e \<Rightarrow> Inl e
         | Inr s \<Rightarrow> Inr (Some (if stattype = ''size'' then of_int (st_size s) else st_mtime s)))
      else if stattype = ''size'' then
        (case du fs filepath of
           Inl e \<Rightarrow> Inl e
         | Inr out \<Rightarrow>
             (case py_index (split_ws out []) 0 of
                Inl e \<Rightarrow> Inl e
              | Inr w \<Rightarrow> (case py_int w of Inl e \<Rightarrow> Inl e | Inr n \<Rightarrow> Inr (Some (of_int n)))))
      else
        (case find_files fs filepath of
           Inl e \<Rightarrow> Inl e
         | Inr out \<Rightarrow>
             (let all_dir_files = split_on (CHR 0x0A) out in
              if length all_dir_files > 1 then
                (case py_index (py_sort id True all_dir_files) 1 of
                   Inl e \<Rightarrow> Inl e
                 | Inr line \<Rightarrow>
                     (case py_index (split_on (CHR ''.'') line) 0 of
                        Inl e \<Rightarrow> Inl e
                      | Inr w \<Rightarrow>
                          (case py_int w of Inl e \<Rightarrow> Inl e | Inr n \<Rightarrow> Inr (Some (of_int n)))))
              else Inr None)))"

text \<open>The \<open>for\<close> loop with its \<open>except (FileNotFoundError, CalledProcessError): pass\<close>.\<close>

fun add_stat_loop ::
  "filesystem \<Rightarrow> string \<Rightarrow> string list \<Rightarrow> (string \<times> pynum) list \<Rightarrow> py_error + (string \<times> pynum) list"
where
  "add_stat_loop fs stattype [] result = Inr result"
| "add_stat_loop fs stattype (filepath # rest) result =
     (case stat_value fs stattype filepath of
        Inr (Some v) \<Rightarrow> add_stat_loop fs stattype rest (result @ [(filepath, v)])
      | Inr None \<Rightarrow> add_stat_loop fs stattype rest result
      | Inl e \<Rightarrow>
          if e = FileNotFoundError \<or> e = CalledProcessError
          then add_stat_loop fs stattype rest result
          else Inl e)"

definition add_stat_properties ::
  "filesystem \<Rightarrow> string list \<Rightarrow> string \<Rightarrow> bool \<Rightarrow> bool \<Rightarrow> py_error + (string \<times> pynum) list"
where
  "add_stat_properties fs filepaths stattype do_sort sort_reversed =
     (case add_stat_loop fs stattype filepaths [] of
        Inl e \<Rightarrow> Inl e
      | Inr result \<Rightarrow> Inr (if do_sort then py_sort snd sort_reversed result else result))"

section \<open>The cleaning policy of one directory\<close>

text \<open>
  The dataclass \<open>One_path_item\<close>; \<open>path\<close> is the expanded path, \<open>remove_older\<close> is
  \<open>None\<close> or a number of days.
\<close>

record one_path_item =
  path :: string
  type_to_del :: string
  num_to_keep :: int
  remove_older :: "int option"
  ignore :: "string list"

text \<open>
  The value of the variable \<open>files_to_remove\<close> after the second filter: the \<open>Path\<close>
  objects of the listing, or the \<open>(str, stat)\<close> tuples of \<open>_add_stat_properties\<close>.
\<close>

datatype files = Paths "string list" | Stats "(string \<times> pynum) list"

text \<open>First filter: files only when \<open>type_to_del == 'f'\<close>, else the whole listing.\<close>

definition first_filter :: "filesystem \<Rightarrow> one_path_item \<Rightarrow> string list" where
  "first_filter fs item =
     (if type_to_del item = ''f'' then filter (is_file fs) (glob fs (path item))
      else glob fs (path item))"

text \<open>
  The walk over the sorted tuples under \<open>remove_older\<close>: it counts the entries to keep
  and stops at the first value below the threshold.
\<close>

fun count_kept :: "(string \<times> pynum) list \<Rightarrow> pynum \<Rightarrow> nat \<Rightarrow> nat" where
  "count_kept [] trashold counter = counter"
| "count_kept ((k, v) # rest) trashold counter =
     (if v < trashold then counter else count_kept rest trashold (counter + 1))"

text \<open>
  Second filter.  \<open>now\<close> is \<open>datetime.timestamp(datetime.now())\<close>; the subtraction is
  taken exactly.
\<close>

definition second_filter ::
  "filesystem \<Rightarrow> pynum \<Rightarrow> one_path_item \<Rightarrow> string list \<Rightarrow> py_error + files"
where
  "second_filter fs now item files_to_remove =
     (if num_to_keep item > 0 then
        (case add_stat_properties fs files_to_remove ''age'' True True of
           Inl e \<Rightarrow> Inl e
         | Inr aged \<Rightarrow>
             if int (length aged) > num_to_keep item
             then Inr (Stats (drop (nat (num_to_keep item)) aged))
             else Inr (Stats []))
      else
        (case remove_older item of
           None \<Rightarrow> Inr (Paths files_to_remove)
         | Some days \<Rightarrow>
             (case add_stat_properties fs files_to_remove ''age'' True True of
                Inl e \<Rightarrow> Inl e
              | Inr aged \<Rightarrow>
                  (let trashold = now - of_int (days * 86400);
                       counter = count_kept aged trashold 0
                   in Inr (Stats (drop counter aged))))))"

text \<open>
  Third filter.  After a second filter that measured ages the tuples are disbanded
  with \<open>dict(files_to_remove).keys()\<close> and \<open>substring in file\<close> tests strings.
  Otherwise \<open>file\<close> is still a \<open>Path\<close> object, which is not a container:
  \<open>substring in file\<close> raises \<open>TypeError\<close> as soon as it is evaluated, that is
  when there is a file and an ignore substring.
\<close>

definition third_filter :: "one_path_item \<Rightarrow> files \<Rightarrow> py_error + string list" where
  "third_filter item files_to_remove =
     (case files_to_remove of
        Stats aged \<Rightarrow>
          Inr (filter (\<lambda>file. \<not> list_ex (\<lambda>substring. is_substring substring file) (ignore item))
                 (dict_keys aged))
      | Paths ps \<Rightarrow>
          if ps = [] \<or> ignore item = [] then Inr ps else Inl TypeError)"

text \<open>The three filters in a row: the list handed to \<open>_erase_subs\<close> for one item.\<close>

definition final_files_to_remove ::
  "filesystem \<Rightarrow> pynum \<Rightarrow> one_path_item \<Rightarrow> py_error + string list"
where
  "final_files_to_remove fs now item =
     (case second_filter fs now item (first_filter fs item) of
        Inl e \<Rightarrow> Inl e
      | Inr files_to_remove \<Rightarrow> third_filter item files_to_remove)"

section \<open>\<open>ScannerAndCleaner\<close>\<close>

text \<open>
  The fields of the object that the methods read: \<open>watchdirs_content\<close> is the dict
  \<open>watchdirs_content_Path\<close> (key \<open>str(directory)\<close>, value its listing), of which
  \<open>watchdirs_content_set\<close> and \<open>watchdirs_content_list\<close> are the same listing as a
  set of strings.  Watched directories are given already expanded.
\<close>

record scanner_and_cleaner =
  ntopfiles :: int
  dirstoclean :: "one_path_item list"
  watchdirs_content :: "(string \<times> string list) list"

definition init ::
  "filesystem \<Rightarrow> string list \<Rightarrow> int \<Rightarrow> one_path_item list \<Rightarrow> scanner_and_cleaner"
where
  "init fs watch_dirs ntop dirs =
     \<lparr> ntopfiles = ntop, dirstoclean = dirs,
       watchdirs_content = foldl (\<lambda>d key. dict_set d key (glob fs key)) [] watch_dirs \<rparr>"

text \<open>
  What \<open>json.loads\<close> makes of \<open>watchdirs.json\<close>: \<open>JSONDecodeError\<close>, or the dict of
  lists of strings that a previous run stored.
\<close>

datatype stored = Unparsable | Parsed "(string \<times> string list) list"

text \<open>
  The value of one key of \<open>new_content\<close>: the list of new entries, or the fixed string
  'Seems like a new directory, it was not found in a stored file'.
\<close>

datatype new_entry = Entries "string list" | New_directory_message

text \<open>The text \<open>report_scan\<close>, by the branch that made it.\<close>

datatype report_scan =
    New_found "(string \<times> new_entry) list"
  | No_new
  | Corrupted
  | Not_found

text \<open>The result of \<open>_count_erased_size\<close>; \<open>Unavailable\<close> is the string '-'.\<close>

datatype delta = Diff pynum | Unavailable

record erased_report =
  total :: pynum
  all_positions :: "(string \<times> delta) list"

text \<open>
  A section appended to \<open>report.log\<close>: the scan section holds \<open>report_scan\<close>, the
  number in its 'Top n' title and the rows under it; the clean section holds the rows
  and the total.  Sizes are kept as numbers, before \<open>_bytes_to_mib\<close> formats them.
\<close>

datatype log_section =
    Scan_section report_scan int "(string \<times> pynum) list"
  | Clean_section erased_report

datatype notification = Scan_note report_scan | Clean_note pynum

text \<open>
  The state a run changes: the three data files, the text \<open>notify_report\<close> and the
  \<open>rm -rf\<close> processes started so far.
\<close>

record run_state =
  watchdirs_file :: "stored option"
  timer_file :: "string option"
  report_file :: "log_section list"
  notify_report :: "notification list"
  rm_calls :: "string list"

text \<open>How a method call ends: an uncaught exception, or one of its \<open>return\<close> points.\<close>

datatype outcome = Raised py_error | Throttled | Done

subsection \<open>\<open>scan\<close>\<close>

text \<open>
  The loop over the watched keys.  The new entries of a key are the current listing
  without the stored one; Python lists a set in an unspecified order, here the order
  of the listing.
\<close>

fun scan_diff ::
  "(string \<times> string list) list \<Rightarrow> (string \<times> string list) list \<Rightarrow>
   (string \<times> new_entry) list \<Rightarrow> (string \<times> new_entry) list"
where
  "scan_diff [] watchdirs_file_content new_content = new_content"
| "scan_diff ((key, listing) # rest) watchdirs_file_content new_content =
     (case dict_get watchdirs_file_content key of
        None \<Rightarrow>
          scan_diff rest watchdirs_file_content (dict_set new_content key New_directory_message)
      | Some previous \<Rightarrow>
          (let current_content = filter (\<lambda>x. x \<notin> set previous) (remdups listing) in
           if current_content \<noteq> []
           then scan_diff rest watchdirs_file_content
                  (dict_set new_content key (Entries current_content))
           else scan_diff rest watchdirs_file_content new_content))"

text \<open>\<open>all_content += self._add_stat_properties(paths)\<close> for each watched directory.\<close>

fun gather_sizes ::
  "filesystem \<Rightarrow> string list list \<Rightarrow> (string \<times> pynum) list \<Rightarrow> py_error + (string \<times> pynum) list"
where
  "gather_sizes fs [] all_content = Inr all_content"
| "gather_sizes fs (paths # rest) all_content =
     (case add_stat_properties fs paths ''size'' True True of
        Inl e \<Rightarrow> Inl e
      | Inr sized \<Rightarrow> gather_sizes fs rest (all_content @ sized))"

text \<open>The \<open>while counter > 0\<close> loop that pops the first rows of \<open>all_content\<close>.\<close>

function top_size_things ::
  "int \<Rightarrow> (string \<times> pynum) list \<Rightarrow> (string \<times> pynum) list \<Rightarrow> (string \<times> pynum) list"
where
  "top_size_things counter all_content rows =
     (if counter > 0 then
        (case all_content of
           [] \<Rightarrow> rows
         | one_row # rest \<Rightarrow> top_size_things (counter - 1) rest (rows @ [one_row]))
      else rows)"
  by pat_completeness auto
termination
  by (relation "measure (\<lambda>(counter, all_content, rows). nat counter)") auto

declare top_size_things.simps [simp del]

definition scan :: "filesystem \<Rightarrow> scanner_and_cleaner \<Rightarrow> run_state \<Rightarrow> outcome \<times> run_state" where
  "scan fs self st =
     (let snapshot = Parsed (map (\<lambda>(key, listing). (key, remdups listing)) (watchdirs_content self));
          report =
            (case watchdirs_file st of
               Some (Parsed watchdirs_file_content) \<Rightarrow>
                 (let new_content = scan_diff (watchdirs_content self) watchdirs_file_content []
                  in if new_content \<noteq> [] then New_found new_content else No_new)
             | Some Unparsable \<Rightarrow> Corrupted
             | None \<Rightarrow> Not_found);
          st1 = st\<lparr>watchdirs_file := Some snapshot\<rparr>
      in case gather_sizes fs (map snd (watchdirs_content self)) [] of
           Inl e \<Rightarrow> (Raised e, st1)
         | Inr all_content \<Rightarrow>
             (Done,
              st1\<lparr>report_file := report_file st1 @
                     [Scan_section report (ntopfiles self)
                        (top_size_things (ntopfiles self) all_content [])],
                  notify_report := notify_report st1 @ [Scan_note report]\<rparr>))"

subsection \<open>\<open>_count_erased_size\<close>\<close>

fun count_loop ::
  "(string \<times> pynum) list \<Rightarrow> (string \<times> pynum) list \<Rightarrow> (string \<times> delta) list \<Rightarrow> pynum \<Rightarrow>
   erased_report"
where
  "count_loop new_sizes [] result total_result =
     \<lparr> total = total_result, all_positions = result \<rparr>"
| "count_loop new_sizes ((k, v) # rest) result total_result =
     (case dict_get new_sizes k of
        Some item \<Rightarrow>
          (let size_diff = item - v
           in count_loop new_sizes rest (result @ [(k, Diff size_diff)]) (total_result + size_diff))
      | None \<Rightarrow> count_loop new_sizes rest (result @ [(k, Unavailable)]) total_result)"

definition count_erased_size ::
  "filesystem \<Rightarrow> scanner_and_cleaner \<Rightarrow> (string \<times> pynum) list \<Rightarrow> py_error + erased_report"
where
  "count_erased_size fs self saved_sizes =
     (case add_stat_properties fs (map path (dirstoclean self)) ''size'' False True of
        Inl e \<Rightarrow> Inl e
      | Inr sized \<Rightarrow> Inr (count_loop (py_dict sized) saved_sizes [] 0))"

subsection \<open>\<open>cleaner\<close>\<close>

text \<open>
  The loop over \<open>dirstoclean\<close>; \<open>erased\<close> collects the paths given to \<open>rm -rf\<close>.
  An exception leaves the loop with the processes started before it.
\<close>

fun clean_loop ::
  "filesystem \<Rightarrow> pynum \<Rightarrow> one_path_item list \<Rightarrow> string list \<Rightarrow> py_error option \<times> string list"
where
  "clean_loop fs now [] erased = (None, erased)"
| "clean_loop fs now (item # rest) erased =
     (case final_files_to_remove fs now item of
        Inl e \<Rightarrow> (Some e, erased)
      | Inr final \<Rightarrow> clean_loop fs now rest (erased @ final))"

text \<open>
  The method after the throttle test.  \<open>fs\<close> is the file system as seen while sizes
  are saved and files are chosen, \<open>fs'\<close> as seen when sizes are measured again: the
  deletions run in processes of their own and nothing relates the two.
\<close>

definition clean_run ::
  "filesystem \<Rightarrow> filesystem \<Rightarrow> pynum \<Rightarrow> scanner_and_cleaner \<Rightarrow> int \<Rightarrow> run_state \<Rightarrow>
   outcome \<times> run_state"
where
  "clean_run fs fs' now self clean_each_x_launch st =
     (let st1 = st\<lparr>timer_file := Some (py_str clean_each_x_launch)\<rparr> in
      case add_stat_properties fs (map path (dirstoclean self)) ''size'' False True of
        Inl e \<Rightarrow> (Raised e, st1)
      | Inr item_sizes \<Rightarrow>
          (case clean_loop fs now (dirstoclean self) [] of
             (Some e, erased) \<Rightarrow> (Raised e, st1\<lparr>rm_calls := rm_calls st1 @ erased\<rparr>)
           | (None, erased) \<Rightarrow>
               (let st2 = st1\<lparr>rm_calls := rm_calls st1 @ erased\<rparr> in
                case count_erased_size fs' self item_sizes of
                  Inl e \<Rightarrow> (Raised e, st2)
                | Inr report \<Rightarrow>
                    (Done,
                     st2\<lparr>report_file := report_file st2 @ [Clean_section report],
                         notify_report := notify_report st2 @ [Clean_note (total report)]\<rparr>))))"

definition cleaner ::
  "filesystem \<Rightarrow> filesystem \<Rightarrow> pynum \<Rightarrow> scanner_and_cleaner \<Rightarrow> int \<Rightarrow> run_state \<Rightarrow>
   outcome \<times> run_state"
where
  "cleaner fs fs' now self clean_each_x_launch st =
     (case timer_file st of
        None \<Rightarrow> clean_run fs fs' now self clean_each_x_launch st
      | Some file_content \<Rightarrow>
          if isdigit file_content then
            (case py_int file_content of
               Inl e \<Rightarrow> (Raised e, st)
             | Inr n \<Rightarrow>
                 if n > 1 then (Throttled, st\<lparr>timer_file := Some (py_str (n - 1))\<rparr>)
                 else clean_run fs fs' now self clean_each_x_launch st)
          else clean_run fs fs' now self clean_each_x_launch st)"

text \<open>
  Consecutive calls of \<open>cleaner\<close> on one object with the data files kept between
  them; each call meets a file system and a time of its own.
\<close>

fun consecutive_cleans ::
  "scanner_and_cleaner \<Rightarrow> int \<Rightarrow> (filesystem \<times> filesystem \<times> pynum) list \<Rightarrow> run_state \<Rightarrow>
   outcome list \<times> run_state"
where
  "consecutive_cleans self x [] st = ([], st)"
| "consecutive_cleans self x ((fs, fs', now) # calls) st =
     (case cleaner fs fs' now self x st of
        (res, st1) \<Rightarrow>
          (case consecutive_cleans self x calls st1 of (ress, st2) \<Rightarrow> (res # ress, st2)))"

section \<open>Concrete file systems and runs\<close>

text \<open>A file system on which nothing exists, and the state before the first run.\<close>

definition empty_fs :: filesystem where
  "empty_fs =
     \<lparr> is_file = (\<lambda>p. False), stat = (\<lambda>p. Inl FileNotFoundError),
       du = (\<lambda>p. Inl CalledProcessError), find_files = (\<lambda>p. Inl CalledProcessError),
       glob = (\<lambda>p. []) \<rparr>"

definition first_run :: run_state where
  "first_run =
     \<lparr> watchdirs_file = None, timer_file = None, report_file = [], notify_report = [],
       rm_calls = [] \<rparr>"

definition full_cleaning :: "string \<Rightarrow> one_path_item" where
  "full_cleaning p =
     \<lparr> path = p, type_to_del = ''a'', num_to_keep = 0, remove_older = None, ignore = [] \<rparr>"

text \<open>
  \<open>/d\<close> is a directory whose files \<open>/d/a\<close> and \<open>/d/b\<close> were modified at 200 and 100
  seconds; \<open>/e\<close> is a directory with the single file \<open>/e/a\<close>; \<open>/f\<close> is a directory
  without files.
\<close>

definition dirs_fs :: filesystem where
  "dirs_fs = empty_fs
     \<lparr> find_files := (\<lambda>p.
          if p = ''/d'' then
            Inr (''200.0000000000+ /d/a'' @ [CHR 0x0A] @ ''100.0000000000+ /d/b'' @ [CHR 0x0A])
          else if p = ''/e'' then Inr (''200.0000000000+ /e/a'' @ [CHR 0x0A])
          else if p = ''/f'' then Inr []
          else Inl CalledProcessError),
        du := (\<lambda>p. if p = ''/t'' then Inr (''4096'' @ [CHR 0x09] @ ''/t'' @ [CHR 0x0A])
                     else Inl CalledProcessError),
        glob := (\<lambda>p. if p = ''/t'' then [''/e''] else []) \<rparr>"

text \<open>The directory \<open>/t\<close> holds 1000 bytes before the cleaning and 400 after it.\<close>

definition before_fs :: filesystem where
  "before_fs = empty_fs
     \<lparr> du := (\<lambda>p. if p = ''/t'' then Inr (''1000'' @ [CHR 0x09] @ ''/t'' @ [CHR 0x0A])
                   else Inl CalledProcessError) \<rparr>"

definition after_fs :: filesystem where
  "after_fs = empty_fs
     \<lparr> du := (\<lambda>p. if p = ''/t'' then Inr (''400'' @ [CHR 0x09] @ ''/t'' @ [CHR 0x0A])
                   else Inl CalledProcessError) \<rparr>"

text \<open>
  Two watched directories: \<open>/A\<close> holds the file \<open>/A/a\<close> of 1 byte, \<open>/B\<close> the files
  \<open>/B/p\<close> of 100 bytes and \<open>/B/q\<close> of 50 bytes.
\<close>

definition watch_fs :: filesystem where
  "watch_fs = empty_fs
     \<lparr> is_file := (\<lambda>p. p = ''/A/a'' \<or> p = ''/B/p'' \<or> p = ''/B/q''),
       stat := (\<lambda>p.
          if p = ''/A/a'' then Inr \<lparr>st_size = 1, st_mtime = 300\<rparr>
          else if p = ''/B/p'' then Inr \<lparr>st_size = 100, st_mtime = 200\<rparr>
          else if p = ''/B/q'' then Inr \<lparr>st_size = 50, st_mtime = 100\<rparr>
          else Inl FileNotFoundError),
       glob := (\<lambda>p. if p = ''/A'' then [''/A/a'']
                     else if p = ''/B'' then [''/B/p'', ''/B/q''] else []) \<rparr>"

text \<open>
  The files of \<open>/t\<close> with their modification times; \<open>keep_fs\<close> lists the first
  three of them, \<open>plain_fs\<close> the same without \<open>/t/keep_x\<close>, \<open>five_fs\<close> all five,
  and \<open>six_fs\<close> all five together with the directory \<open>/t/empty\<close>, which has no
  files.
\<close>

definition file_stats :: "string \<Rightarrow> py_error + stat_result" where
  "file_stats p =
     (if p = ''/t/keep_x'' then Inr \<lparr>st_size = 1, st_mtime = 300\<rparr>
      else if p = ''/t/a'' then Inr \<lparr>st_size = 1, st_mtime = 200\<rparr>
      else if p = ''/t/b'' then Inr \<lparr>st_size = 1, st_mtime = 100\<rparr>
      else if p = ''/t/c'' then Inr \<lparr>st_size = 1, st_mtime = 50\<rparr>
      else if p = ''/t/d'' then Inr \<lparr>st_size = 1, st_mtime = 400\<rparr>
      else Inl FileNotFoundError)"

definition keep_fs :: filesystem where
  "keep_fs = empty_fs
     \<lparr> is_file := (\<lambda>p. True), stat := file_stats,
       glob := (\<lambda>p. if p = ''/t'' then [''/t/a'', ''/t/keep_x'', ''/t/b''] else []) \<rparr>"

definition plain_fs :: filesystem where
  "plain_fs = empty_fs
     \<lparr> is_file := (\<lambda>p. True), stat := file_stats,
       glob := (\<lambda>p. if p = ''/t'' then [''/t/a'', ''/t/b''] else []) \<rparr>"


definition six_fs :: filesystem where
  "six_fs = empty_fs
     \<lparr> is_file := (\<lambda>p. p \<noteq> ''/t/empty''), stat := file_stats,
       find_files := (\<lambda>p. if p = ''/t/empty'' then Inr [] else Inl CalledProcessError),
       glob := (\<lambda>p. if p = ''/t''
                     then [''/t/a'', ''/t/keep_x'', ''/t/empty'', ''/t/b'', ''/t/c'', ''/t/d'']
                     else []) \<rparr>"

definition keep_one :: one_path_item where
  "keep_one =
     \<lparr> path = ''/t'', type_to_del = ''a'', num_to_keep = 1, remove_older = None,
       ignore = [''keep''] \<rparr>"

definition keep_two :: one_path_item where
  "keep_two =
     \<lparr> path = ''/t'', type_to_del = ''a'', num_to_keep = 2, remove_older = None,
       ignore = [] \<rparr>"



text \<open>
  The state of a later run: the stored listing knows \<open>/A\<close> with its entry, and
  nothing of \<open>/B\<close>.
\<close>

definition later_run :: run_state where
  "later_run = first_run\<lparr>watchdirs_file := Some (Parsed [(''/A'', [''/A/a''])])\<rparr>"

section \<open>Entries without an age\<close>

text \<open>
  The probe in age mode appends nothing for \<open>p\<close>: the body of the \<open>try\<close> ends
  without a value (a directory in which \<open>find\<close> lists no file) or raises one of the
  two exceptions that are caught (the entry vanished, or \<open>find\<close> failed).
\<close>

definition unmeasurable :: "filesystem \<Rightarrow> string \<Rightarrow> bool" where
  "unmeasurable fs p =
     (case stat_value fs ''age'' p of
        Inr None \<Rightarrow> True
      | Inr (Some v) \<Rightarrow> False
      | Inl e \<Rightarrow> e = FileNotFoundError \<or> e = CalledProcessError)"

section \<open>The stat probe on directories\<close>

text \<open>
  Claim C1: in age mode the value returned for a directory is the most recent
  modification time among the files inside it.  The code sorts the lines of \<open>find\<close>
  in descending order, which leaves the empty last line at the end, and then takes the line
  at index 1: for \<open>/d\<close>, whose files were modified at 200 and at 100, the probe
  returns 100, the second newest time, not 200.
\<close>

theorem newest_file_not_returned:
  "add_stat_properties dirs_fs [''/d''] ''age'' True True = Inr [(''/d'', 100)]"
  by code_simp

text \<open>
  Claim C2: no directory content makes the probe raise an uncaught exception, and
  the run always writes a report.  For the directory \<open>/e\<close>, which holds exactly one
  file, the line at index 1 is the empty string and \<open>int('')\<close> raises \<open>ValueError\<close>,
  which the probe does not catch; a \<open>cleaner\<close> run over a target with
  \<open>num_to_keep=1\<close> that lists \<open>/e\<close> ends with that exception, the timer file
  written and no section appended to the report.
\<close>

theorem single_file_directory_raises:
  "add_stat_properties dirs_fs [''/e''] ''age'' True True = Inl ValueError
   \<and> cleaner dirs_fs dirs_fs 1000
        (init dirs_fs [] 20 [(full_cleaning ''/t'')\<lparr>num_to_keep := 1\<rparr>]) 14 first_run
      = (Raised ValueError, first_run\<lparr>timer_file := Some ''14''\<rparr>)"
  by code_simp

section \<open>The clean report\<close>

text \<open>
  Claim C3: the delta reported for a target is \<open>before - after\<close>.  The code computes
  \<open>item - v\<close>, the new size minus the saved one: for \<open>/t\<close> with 1000 bytes before the
  cleaning and 400 after it, the row and the total 'cleaned space' are both -600.
\<close>

theorem erased_size_sign:
  "cleaner before_fs after_fs 1000 (init before_fs [] 20 [full_cleaning ''/t'']) 14 first_run
   = (Done, first_run
        \<lparr>timer_file := Some ''14'',
         report_file := [Clean_section \<lparr>total = - 600, all_positions = [(''/t'', Diff (- 600))]\<rparr>],
         notify_report := [Clean_note (- 600)]\<rparr>)"
  by code_simp

section \<open>The top sizes of a scan\<close>

text \<open>
  Claim C4: the top-N rows are the N largest entries across all watched directories.
  The code sorts the entries of each watched directory and concatenates the lists
  without sorting the whole: with \<open>ntopfiles = 1\<close> the only row is \<open>/A/a\<close> of 1 byte,
  although \<open>/B/p\<close> has 100 bytes.
\<close>

theorem top_sizes_not_global:
  "scan watch_fs (init watch_fs [''/A'', ''/B''] 1 []) first_run
   = (Done, first_run
        \<lparr>watchdirs_file := Some (Parsed [(''/A'', [''/A/a'']), (''/B'', [''/B/p'', ''/B/q''])]),
         report_file := [Scan_section Not_found 1 [(''/A/a'', 1)]],
         notify_report := [Scan_note Not_found]\<rparr>)"
  by code_simp

section \<open>Ignored entries and \<open>num_to_keep\<close>\<close>

text \<open>
  Claim C7: an ignored entry does not count for \<open>num_to_keep\<close>, so keeping it does
  not change which other entries survive.  The ignore filter runs after the newest
  \<open>num_to_keep\<close> entries were exempted: with \<open>num_to_keep = 1\<close> and the ignored
  \<open>/t/keep_x\<close> being the newest entry, both \<open>/t/a\<close> and \<open>/t/b\<close> are removed, while
  without \<open>/t/keep_x\<close> in the directory \<open>/t/a\<close> survives.
\<close>

theorem ignored_entry_counts_for_num_to_keep:
  "final_files_to_remove keep_fs 1000 keep_one = Inr [''/t/a'', ''/t/b'']
   \<and> final_files_to_remove plain_fs 1000 keep_one = Inr [''/t/b'']"
  by code_simp

section \<open>Facts about the stat probe\<close>

lemma set_py_sort: "set (py_sort key r xs) = set xs"
  by (simp add: py_sort_def)

lemma length_py_sort: "length (py_sort key r xs) = length xs"
  by (simp add: py_sort_def)



lemma add_stat_loop_values:
  "add_stat_loop fs t fl acc = Inr res \<Longrightarrow> (p, v) \<in> set res \<Longrightarrow>
   (p, v) \<in> set acc \<or> (p \<in> set fl \<and> stat_value fs t p = Inr (Some v))"
proof (induction fl arbitrary: acc)
  case Nil
  then show ?case by simp
next
  case (Cons q fl)
  show ?case
  proof (cases "stat_value fs t q")
    case (Inl e)
    with Cons.prems have "add_stat_loop fs t fl acc = Inr res"
      by (simp split: if_splits)
    from Cons.IH[OF this Cons.prems(2)] show ?thesis by auto
  next
    case (Inr ov)
    show ?thesis
    proof (cases ov)
      case None
      with Inr Cons.prems have "add_stat_loop fs t fl acc = Inr res" by simp
      from Cons.IH[OF this Cons.prems(2)] show ?thesis by auto
    next
      case (Some w)
      with Inr Cons.prems have "add_stat_loop fs t fl (acc @ [(q, w)]) = Inr res" by simp
      from Cons.IH[OF this Cons.prems(2)] Inr Some show ?thesis by auto
    qed
  qed
qed

lemma add_stat_properties_loop:
  "add_stat_properties fs fl t s r = Inr aged \<Longrightarrow>
   \<exists>res. add_stat_loop fs t fl [] = Inr res \<and> set aged = set res \<and> length aged = length res"
  by (auto simp: add_stat_properties_def set_py_sort length_py_sort split: sum.splits if_splits)

lemma add_stat_properties_values:
  assumes "add_stat_properties fs fl t s r = Inr aged" and "(p, v) \<in> set aged"
  shows "p \<in> set fl \<and> stat_value fs t p = Inr (Some v)"
proof -
  from add_stat_properties_loop[OF assms(1)] obtain res
    where res: "add_stat_loop fs t fl [] = Inr res" "set aged = set res" by blast
  with assms(2) have "(p, v) \<in> set res" by simp
  from add_stat_loop_values[OF res(1) this] show ?thesis by simp
qed








section \<open>Keeping the newest entries\<close>




section \<open>Removing entries older than a number of days\<close>






section \<open>Entries whose age cannot be measured\<close>

lemma keys_dict_set: "fst ` set (dict_set d k v) = insert k (fst ` set d)"
  by (induction d k v rule: dict_set.induct) auto

lemma keys_foldl_dict_set:
  "fst ` set (foldl (\<lambda>d (k, v). dict_set d k v) d0 kvs) = fst ` set d0 \<union> fst ` set kvs"
proof (induction kvs arbitrary: d0)
  case Nil
  then show ?case by simp
next
  case (Cons kv kvs)
  obtain k v where kv: "kv = (k, v)" by (cases kv)
  have "fst ` set (foldl (\<lambda>d (k, v). dict_set d k v) (dict_set d0 k v) kvs)
      = fst ` set (dict_set d0 k v) \<union> fst ` set kvs"
    by (rule Cons.IH)
  then show ?case by (simp add: kv keys_dict_set)
qed

lemma set_dict_keys: "set (dict_keys kvs) = fst ` set kvs"
  by (simp add: dict_keys_def py_dict_def keys_foldl_dict_set)

lemma add_stat_loop_skip:
  assumes "unmeasurable fs p"
  shows "add_stat_loop fs ''age'' (filter (\<lambda>q. q \<noteq> p) fl) acc = add_stat_loop fs ''age'' fl acc"
proof (induction fl arbitrary: acc)
  case Nil
  then show ?case by simp
next
  case (Cons q fl)
  show ?case
  proof (cases "q = p")
    case True
    from assms have "add_stat_loop fs ''age'' (p # fl) acc = add_stat_loop fs ''age'' fl acc"
      by (auto simp: unmeasurable_def split: sum.splits option.splits)
    with True Cons.IH show ?thesis by simp
  next
    case False
    with Cons.IH show ?thesis by (simp split: sum.splits option.splits)
  qed
qed

lemma add_stat_properties_skip:
  "unmeasurable fs p \<Longrightarrow>
   add_stat_properties fs (filter (\<lambda>q. q \<noteq> p) fl) ''age'' s r = add_stat_properties fs fl ''age'' s r"
  by (simp add: add_stat_properties_def add_stat_loop_skip)

lemma unmeasurable_not_measured:
  assumes "unmeasurable fs p" and "add_stat_properties fs fl ''age'' s r = Inr aged"
  shows "p \<notin> fst ` set aged"
proof
  assume "p \<in> fst ` set aged"
  then obtain v where "(p, v) \<in> set aged" by force
  from add_stat_properties_values[OF assms(2) this] have "stat_value fs ''age'' p = Inr (Some v)"
    by simp
  with assms(1) show False by (simp add: unmeasurable_def)
qed

lemma second_filter_selected:
  assumes "second_filter fs now item fl = Inr (Stats selected)"
    and "0 < num_to_keep item \<or> remove_older item \<noteq> None"
  shows "\<exists>aged. add_stat_properties fs fl ''age'' True True = Inr aged \<and> set selected \<subseteq> set aged"
proof (cases "0 < num_to_keep item")
  case True
  with assms(1) show ?thesis
    by (auto simp: second_filter_def split: sum.splits if_splits dest: in_set_dropD)
next
  case False
  with assms(2) obtain days where "remove_older item = Some days" by auto
  with False assms(1) show ?thesis
    by (auto simp: second_filter_def Let_def split: sum.splits dest: in_set_dropD)
qed


text \<open>
  Claim C10: an entry is unmeasurable when it is a directory in which \<open>find\<close> lists
  no file, when it vanished (\<open>stat\<close> or \<open>find\<close> fails) or when \<open>find\<close> fails.
  Under a \<open>num_to_keep\<close> or \<open>remove_older\<close> policy such an entry is dropped before the
  selection: the second filter gives the same result as on the candidates without
  it (so it takes no place among the kept ones), it is not among the selected
  tuples and not among the files handed to \<open>rm\<close>.  With neither policy the second
  filter selects every candidate, and with an empty ignore list all of them are
  handed to \<open>rm\<close>.
\<close>

theorem unmeasurable_entries:
  "((is_file fs q \<and> stat fs q = Inl FileNotFoundError)
     \<or> (\<not> is_file fs q \<and> (find_files fs q = Inr [] \<or> find_files fs q = Inl CalledProcessError
                             \<or> find_files fs q = Inl FileNotFoundError))
    \<longrightarrow> unmeasurable fs q)
   \<and> (unmeasurable fs p \<and> (0 < num_to_keep item \<or> remove_older item \<noteq> None) \<longrightarrow>
        second_filter fs now item candidates
          = second_filter fs now item (filter (\<lambda>c. c \<noteq> p) candidates)
      \<and> (\<forall>selected. second_filter fs now item candidates = Inr (Stats selected)
                      \<longrightarrow> p \<notin> fst ` set selected)
      \<and> (\<forall>final. final_files_to_remove fs now item = Inr final \<longrightarrow> p \<notin> set final))
   \<and> (\<not> 0 < num_to_keep item \<and> remove_older item = None \<longrightarrow>
        second_filter fs now item candidates = Inr (Paths candidates)
      \<and> (ignore item = [] \<longrightarrow> final_files_to_remove fs now item = Inr (first_filter fs item)))"
proof (intro conjI impI)
  assume "(is_file fs q \<and> stat fs q = Inl FileNotFoundError)
     \<or> (\<not> is_file fs q \<and> (find_files fs q = Inr [] \<or> find_files fs q = Inl CalledProcessError
                             \<or> find_files fs q = Inl FileNotFoundError))"
  then show "unmeasurable fs q"
    by (auto simp: unmeasurable_def stat_value_def)
next
  assume a: "unmeasurable fs p \<and> (0 < num_to_keep item \<or> remove_older item \<noteq> None)"
  then have "add_stat_properties fs (filter (\<lambda>c. c \<noteq> p) candidates) ''age'' True True
      = add_stat_properties fs candidates ''age'' True True"
    by (simp add: add_stat_properties_skip)
  moreover from a have "0 < num_to_keep item \<or> (\<exists>days. remove_older item = Some days)"
    by auto
  ultimately show "second_filter fs now item candidates
          = second_filter fs now item (filter (\<lambda>c. c \<noteq> p) candidates)"
    by (auto simp: second_filter_def)
next
  assume a: "unmeasurable fs p \<and> (0 < num_to_keep item \<or> remove_older item \<noteq> None)"
  show "\<forall>selected. second_filter fs now item candidates = Inr (Stats selected)
                      \<longrightarrow> p \<notin> fst ` set selected"
  proof (intro allI impI)
    fix selected
    assume "second_filter fs now item candidates = Inr (Stats selected)"
    from second_filter_selected[OF this] a obtain aged
      where "add_stat_properties fs candidates ''age'' True True = Inr aged" "set selected \<subseteq> set aged"
      by blast
    with unmeasurable_not_measured[of fs p candidates True True aged] a
    show "p \<notin> fst ` set selected" by blast
  qed
next
  assume a: "unmeasurable fs p \<and> (0 < num_to_keep item \<or> remove_older item \<noteq> None)"
  show "\<forall>final. final_files_to_remove fs now item = Inr final \<longrightarrow> p \<notin> set final"
  proof (intro allI impI)
    fix final
    assume f: "final_files_to_remove fs now item = Inr final"
    then obtain fl where sf: "second_filter fs now item (first_filter fs item) = Inr fl"
      and tf: "third_filter item fl = Inr final"
      by (auto simp: final_files_to_remove_def split: sum.splits)
    from sf a obtain selected where fl: "fl = Stats selected"
      by (auto simp: second_filter_def Let_def split: sum.splits if_splits)
    from second_filter_selected[OF sf[unfolded fl]] a obtain aged
      where ag: "add_stat_properties fs (first_filter fs item) ''age'' True True = Inr aged"
        "set selected \<subseteq> set aged"
      by blast
    from unmeasurable_not_measured[OF _ ag(1)] a ag(2) have "p \<notin> fst ` set selected" by blast
    moreover have "set (dict_keys selected) \<subseteq> fst ` set selected"
      by (simp add: set_dict_keys)
    moreover from tf fl have "set final \<subseteq> set (dict_keys selected)"
      by (auto simp: third_filter_def)
    ultimately show "p \<notin> set final" by blast
  qed
next
  assume "\<not> 0 < num_to_keep item \<and> remove_older item = None"
  then show "second_filter fs now item candidates = Inr (Paths candidates)"
    by (simp add: second_filter_def)
next
  assume "\<not> 0 < num_to_keep item \<and> remove_older item = None" and "ignore item = []"
  then show "final_files_to_remove fs now item = Inr (first_filter fs item)"
    by (simp add: final_files_to_remove_def second_filter_def third_filter_def)
qed

theorem unmeasurable_entries_witness:
  "unmeasurable six_fs ''/t/empty''
   \<and> second_filter six_fs 1000 keep_two (first_filter six_fs keep_two)
       = second_filter six_fs 1000 keep_two (filter (\<lambda>c. c \<noteq> ''/t/empty'') (first_filter six_fs keep_two))
   \<and> final_files_to_remove six_fs 1000 keep_two = Inr [''/t/a'', ''/t/b'', ''/t/c'']
   \<and> ''/t/empty'' \<notin> set [''/t/a'', ''/t/b'', ''/t/c'']
   \<and> final_files_to_remove six_fs 1000 (full_cleaning ''/t'')
       = Inr [''/t/a'', ''/t/keep_x'', ''/t/empty'', ''/t/b'', ''/t/c'', ''/t/d'']"
proof -
  let ?c = "first_filter six_fs keep_two"
  have dir: "\<not> is_file six_fs ''/t/empty'' \<and> find_files six_fs ''/t/empty'' = Inr []"
    by (simp add: six_fs_def empty_fs_def)
  note t = unmeasurable_entries[of six_fs "''/t/empty''" "''/t/empty''" keep_two 1000 ?c]
  from t dir have u: "unmeasurable six_fs ''/t/empty''" by blast
  have pol: "0 < num_to_keep keep_two \<or> remove_older keep_two \<noteq> None"
    by (simp add: keep_two_def)
  from t u pol have eq: "second_filter six_fs 1000 keep_two ?c
       = second_filter six_fs 1000 keep_two (filter (\<lambda>c. c \<noteq> ''/t/empty'') ?c)"
    by blast
  have f: "final_files_to_remove six_fs 1000 keep_two = Inr [''/t/a'', ''/t/b'', ''/t/c'']"
    by code_simp
  from t u pol f have notin: "''/t/empty'' \<notin> set [''/t/a'', ''/t/b'', ''/t/c'']"
    by blast
  note t2 = unmeasurable_entries[of six_fs "''/t/empty''" "''/t/empty''" "full_cleaning ''/t''" 1000 ?c]
  have full: "\<not> 0 < num_to_keep (full_cleaning ''/t'') \<and> remove_older (full_cleaning ''/t'') = None"
    and ign: "ignore (full_cleaning ''/t'') = []"
    by (simp_all add: full_cleaning_def)
  from t2 full ign have "final_files_to_remove six_fs 1000 (full_cleaning ''/t'')
      = Inr (first_filter six_fs (full_cleaning ''/t''))"
    by blast
  moreover have "first_filter six_fs (full_cleaning ''/t'')
      = [''/t/a'', ''/t/keep_x'', ''/t/empty'', ''/t/b'', ''/t/c'', ''/t/d'']"
    by (simp add: first_filter_def full_cleaning_def six_fs_def empty_fs_def)
  ultimately have all: "final_files_to_remove six_fs 1000 (full_cleaning ''/t'')
       = Inr [''/t/a'', ''/t/keep_x'', ''/t/empty'', ''/t/b'', ''/t/c'', ''/t/d'']"
    by simp
  from u eq f notin all show ?thesis by (intro conjI)
qed


section \<open>A watched directory that the stored listing does not know\<close>

lemma dict_get_set_same: "dict_get (dict_set d k v) k = Some v"
  by (induction d k v rule: dict_set.induct) (auto simp: dict_get_def)

lemma dict_get_set_other: "k' \<noteq> k \<Longrightarrow> dict_get (dict_set d k' v) k = dict_get d k"
  by (induction d k' v rule: dict_set.induct) (auto simp: dict_get_def)

lemma scan_diff_keeps_message:
  "dict_get stored key = None \<Longrightarrow> dict_get new_content key = Some New_directory_message \<Longrightarrow>
   dict_get (scan_diff content stored new_content) key = Some New_directory_message"
proof (induction content arbitrary: new_content)
  case Nil
  then show ?case by simp
next
  case (Cons kl content)
  obtain k listing where kl: "kl = (k, listing)" by (cases kl)
  show ?case
  proof (cases "k = key")
    case True
    with Cons.prems have "dict_get stored k = None" by simp
    moreover have "dict_get (dict_set new_content k New_directory_message) key
        = Some New_directory_message"
      using True by (simp add: dict_get_set_same)
    ultimately show ?thesis
      using Cons.IH[OF Cons.prems(1)] by (simp add: kl)
  next
    case False
    then have "dict_get (dict_set new_content k v) key = Some New_directory_message" for v
      using Cons.prems(2) by (simp add: dict_get_set_other)
    then show ?thesis
      using Cons.IH[OF Cons.prems(1)] Cons.prems(2)
      by (simp add: kl Let_def split: option.splits)
  qed
qed

lemma scan_diff_new_directory:
  "dict_get stored key = None \<Longrightarrow> key \<in> fst ` set content \<Longrightarrow>
   dict_get (scan_diff content stored new_content) key = Some New_directory_message"
proof (induction content arbitrary: new_content)
  case Nil
  then show ?case by simp
next
  case (Cons kl content)
  obtain k listing where kl: "kl = (k, listing)" by (cases kl)
  show ?case
  proof (cases "k = key")
    case True
    with Cons.prems(1) have none: "dict_get stored k = None" by simp
    have "dict_get (dict_set new_content k New_directory_message) key = Some New_directory_message"
      using True by (simp add: dict_get_set_same)
    from scan_diff_keeps_message[OF Cons.prems(1) this] none show ?thesis
      by (simp add: kl)
  next
    case False
    with Cons.prems(2) have "key \<in> fst ` set content" by (simp add: kl)
    from Cons.IH[OF Cons.prems(1) this] show ?thesis
      by (simp add: kl Let_def split: option.splits)
  qed
qed

lemma keys_init_fold:
  "fst ` set (foldl (\<lambda>d key. dict_set d key (g key)) d0 ks) = fst ` set d0 \<union> set ks"
proof (induction ks arbitrary: d0)
  case Nil
  then show ?case by simp
next
  case (Cons k ks)
  have "fst ` set (foldl (\<lambda>d key. dict_set d key (g key)) (dict_set d0 k (g k)) ks)
      = fst ` set (dict_set d0 k (g k)) \<union> set ks"
    by (rule Cons.IH)
  then show ?case by (simp add: keys_dict_set)
qed

lemma keys_init: "fst ` set (watchdirs_content (init fs watch_dirs ntop dirs)) = set watch_dirs"
  by (simp add: init_def keys_init_fold)


text \<open>
  Claim C9, as the code has it: when a scan against a stored listing completes and a
  watched directory is not a key of that listing, the report holds for this
  directory the fixed new-directory message, which is not a list of entries: the
  entries of the directory are not listed.
\<close>

theorem new_watch_directory_message:
  assumes "watchdirs_file st = Some (Parsed stored)"
    and "dict_get stored key = None"
    and "key \<in> set watch_dirs"
    and "fst (scan fs (init fs0 watch_dirs ntop dirs) st) = Done"
  shows "\<exists>new_content rows.
           report_file (snd (scan fs (init fs0 watch_dirs ntop dirs) st))
             = report_file st @ [Scan_section (New_found new_content) ntop rows]
         \<and> dict_get new_content key = Some New_directory_message
         \<and> (\<forall>entries. dict_get new_content key \<noteq> Some (Entries entries))"
proof -
  let ?self = "init fs0 watch_dirs ntop dirs"
  let ?nc = "scan_diff (watchdirs_content ?self) stored []"
  from assms(3) have "key \<in> fst ` set (watchdirs_content ?self)"
    by (simp add: keys_init)
  from scan_diff_new_directory[OF assms(2) this]
  have msg: "dict_get ?nc key = Some New_directory_message" .
  then have ne: "?nc \<noteq> []" by (auto simp: dict_get_def)
  have ntop: "ntopfiles ?self = ntop" by (simp add: init_def)
  from assms(4) obtain all_content
    where g: "gather_sizes fs (map snd (watchdirs_content ?self)) [] = Inr all_content"
    by (auto simp: scan_def Let_def split: sum.splits)
  have "report_file (snd (scan fs ?self st))
      = report_file st @ [Scan_section (New_found ?nc) ntop (top_size_things ntop all_content [])]"
    using assms(1) g ne ntop by (simp add: scan_def Let_def)
  with msg show ?thesis by auto
qed


text \<open>
  Claim C9 as stated says that the current entries of such a directory are listed in
  the report.  With \<open>/B\<close> holding \<open>/B/p\<close> and \<open>/B/q\<close> and the stored listing knowing only
  \<open>/A\<close>, the report holds the message for \<open>/B\<close> and neither of its entries.
\<close>

theorem new_watch_directory_counterexample:
  "scan watch_fs (init watch_fs [''/A'', ''/B''] 1 []) later_run
   = (Done, later_run
        \<lparr>watchdirs_file := Some (Parsed [(''/A'', [''/A/a'']), (''/B'', [''/B/p'', ''/B/q''])]),
         report_file := [Scan_section (New_found [(''/B'', New_directory_message)]) 1 [(''/A/a'', 1)]],
         notify_report := [Scan_note (New_found [(''/B'', New_directory_message)])]\<rparr>)"
  by code_simp


theorem new_watch_directory_message_witness:
  "watchdirs_file later_run = Some (Parsed [(''/A'', [''/A/a''])])
   \<and> dict_get [(''/A'', [''/A/a''])] ''/B'' = None
   \<and> ''/B'' \<in> set [''/A'', ''/B'']
   \<and> fst (scan watch_fs (init watch_fs [''/A'', ''/B''] 1 []) later_run) = Done
   \<and> (\<exists>new_content rows.
           report_file (snd (scan watch_fs (init watch_fs [''/A'', ''/B''] 1 []) later_run))
             = report_file later_run @ [Scan_section (New_found new_content) 1 rows]
         \<and> dict_get new_content ''/B'' = Some New_directory_message
         \<and> (\<forall>entries. dict_get new_content ''/B'' \<noteq> Some (Entries entries)))"
proof -
  have h1: "watchdirs_file later_run = Some (Parsed [(''/A'', [''/A/a''])])"
    by (simp add: later_run_def)
  have h2: "dict_get [(''/A'', [''/A/a''])] ''/B'' = None" by (simp add: dict_get_def)
  have h3: "''/B'' \<in> set [''/A'', ''/B'']" by simp
  have h4: "fst (scan watch_fs (init watch_fs [''/A'', ''/B''] 1 []) later_run) = Done"
    by code_simp
  note c = new_watch_directory_message[OF h1 h2 h3 h4]
  from h1 h2 h3 h4 c show ?thesis by (intro conjI)
qed

end
